theory Spec2Isabelle
  imports Main "HOL-Library.Sublist"
begin

section \<open>Module analysis pipeline of the Terraform registry handlers\<close>

text \<open>
  Shallow embedding of \<^verbatim>\<open>analyze_module\<close> in
  \<^verbatim>\<open>handlers/terraform_registry_handlers.py\<close>.  Python strings are character
  lists; the characters are the code points below 256.  Text read from a file is the
  string that \<^verbatim>\<open>f.read()\<close> delivers.
\<close>

subsection \<open>Strings\<close>

definition nl :: char where
  "nl = CHR 0x0A"

definition dq :: char where
  "dq = CHR 0x22"

text \<open>
  The whitespace of \<^verbatim>\<open>str.isspace\<close>, which is also what \<^verbatim>\<open>\s\<close> matches in a
  \<^verbatim>\<open>str\<close> pattern and what \<^verbatim>\<open>str.strip()\<close> removes: tab to carriage return,
  the four separators 0x1C to 0x1F, space, 0x85 and 0xA0.
\<close>

definition is_space :: "char \<Rightarrow> bool" where
  "is_space c = (let n = (of_char c :: nat) in
     (9 \<le> n \<and> n \<le> 13) \<or> (28 \<le> n \<and> n \<le> 32) \<or> n = 133 \<or> n = 160)"

text \<open>\<^verbatim>\<open>s.strip()\<close>\<close>

definition strip :: "string \<Rightarrow> string" where
  "strip s = rev (dropWhile is_space (rev (dropWhile is_space s)))"

text \<open>\<^verbatim>\<open>s.split(sep)\<close> for a one-character separator: every occurrence cuts, empty
  pieces are kept.\<close>

fun split_on :: "char \<Rightarrow> string \<Rightarrow> string list" where
  "split_on sep [] = [[]]"
| "split_on sep (c # cs) =
     (if c = sep then [] # split_on sep cs
      else (case split_on sep cs of
              [] \<Rightarrow> [[c]]
            | p # ps \<Rightarrow> (c # p) # ps))"

text \<open>\<^verbatim>\<open>"\n".join(lines)\<close>\<close>

fun join_nl :: "string list \<Rightarrow> string" where
  "join_nl [] = []"
| "join_nl [l] = l"
| "join_nl (l # m # ls) = l @ nl # join_nl (m # ls)"

text \<open>The decimal rendering of a length inside an f-string.\<close>

definition digit_char :: "nat \<Rightarrow> char" where
  "digit_char d = ''0123456789'' ! d"

fun show_nat :: "nat \<Rightarrow> string" where
  "show_nat n = (if n < 10 then [digit_char n]
                 else show_nat (n div 10) @ [digit_char (n mod 10)])"

declare show_nat.simps [simp del]

subsection \<open>The regular expressions\<close>

text \<open>
  The patterns of the source are sequences of three kinds of items: literal text, a
  greedy \<^verbatim>\<open>+\<close> over a one-character class, and the same inside a capturing group.
  The classes are \<^verbatim>\<open>\s\<close> and the complements \<^verbatim>\<open>[^c]\<close>.
\<close>

datatype cclass = Space | Not char

fun in_class :: "cclass \<Rightarrow> char \<Rightarrow> bool" where
  "in_class Space c = is_space c"
| "in_class (Not x) c = (c \<noteq> x)"

datatype tok = Lit string | Plus cclass | Cap cclass

text \<open>
  A greedy repetition takes the longest run first and gives characters back one at a
  time, down to one, until the rest of the pattern matches: \<open>first_fit k s n\<close> tries to
  consume \<open>n\<close>, \<open>n - 1\<close>, ..., \<open>1\<close> characters of \<open>s\<close>, and \<open>k\<close> matches the rest of the
  pattern.
\<close>

fun first_fit :: "(string \<Rightarrow> 'a option) \<Rightarrow> string \<Rightarrow> nat \<Rightarrow> (string \<times> 'a) option" where
  "first_fit k s 0 = None"
| "first_fit k s (Suc n) =
     (case k (drop (Suc n) s) of
        Some r \<Rightarrow> Some (take (Suc n) s, r)
      | None \<Rightarrow> first_fit k s n)"

text \<open>
  \<open>match_here p s\<close> matches the pattern \<open>p\<close> at the start of \<open>s\<close>; the result is the
  captured groups in order and the text left after the match.
\<close>

primrec match_here :: "tok list \<Rightarrow> string \<Rightarrow> (string list \<times> string) option" where
  "match_here [] s = Some ([], s)"
| "match_here (t # p) s =
     (case t of
        Lit l \<Rightarrow> if prefix l s then match_here p (drop (length l) s) else None
      | Plus c \<Rightarrow>
          (case first_fit (match_here p) s (length (takeWhile (in_class c) s)) of
             None \<Rightarrow> None
           | Some (w, gs, r) \<Rightarrow> Some (gs, r))
      | Cap c \<Rightarrow>
          (case first_fit (match_here p) s (length (takeWhile (in_class c) s)) of
             None \<Rightarrow> None
           | Some (w, gs, r) \<Rightarrow> Some (w # gs, r)))"

text \<open>\<^verbatim>\<open>re.search(p, s)\<close>: the match at the leftmost position that has one.\<close>

fun search :: "tok list \<Rightarrow> string \<Rightarrow> string list option" where
  "search p [] = map_option fst (match_here p [])"
| "search p (c # cs) =
     (case match_here p (c # cs) of
        Some (gs, r) \<Rightarrow> Some gs
      | None \<Rightarrow> search p cs)"

text \<open>
  \<^verbatim>\<open>re.findall(p, s)\<close>: the groups of the non-overlapping matches, left to right; the
  scan resumes where a match ended.  Every pattern of the source consumes at least one
  character, so a match is never empty; the scan steps one character where the model
  would meet one.
\<close>

function findall :: "tok list \<Rightarrow> string \<Rightarrow> string list list" where
  "findall p [] = (case match_here p [] of Some (gs, r) \<Rightarrow> [gs] | None \<Rightarrow> [])"
| "findall p (c # cs) =
     (case match_here p (c # cs) of
        Some (gs, r) \<Rightarrow>
          (if length r < length (c # cs) then gs # findall p r else gs # findall p cs)
      | None \<Rightarrow> findall p cs)"
  by pat_completeness auto
termination
  by (relation "measure (\<lambda>(p, s). length s)") auto

text \<open>\<^verbatim>\<open>r"variable\s+\"([^\"]+)\"\s+{([^}]+)}"\<close>\<close>

definition var_pat :: "tok list" where
  "var_pat = [Lit ''variable'', Plus Space, Lit [dq], Cap (Not dq), Lit [dq],
              Plus Space, Lit ''{'', Cap (Not (CHR ''}'')), Lit ''}'']"

text \<open>\<^verbatim>\<open>r"output\s+\"([^\"]+)\"\s+{([^}]+)}"\<close>\<close>

definition out_pat :: "tok list" where
  "out_pat = [Lit ''output'', Plus Space, Lit [dq], Cap (Not dq), Lit [dq],
              Plus Space, Lit ''{'', Cap (Not (CHR ''}'')), Lit ''}'']"

text \<open>\<^verbatim>\<open>r"description\s+=\s+\"([^\"]+)\""\<close>\<close>

definition desc_pat :: "tok list" where
  "desc_pat = [Lit ''description'', Plus Space, Lit ''='', Plus Space,
               Lit [dq], Cap (Not dq), Lit [dq]]"

text \<open>\<^verbatim>\<open>r"type\s+=\s+([^\n]+)"\<close>, and the same for \<^verbatim>\<open>default\<close> and \<^verbatim>\<open>value\<close>.\<close>

definition line_pat :: "string \<Rightarrow> tok list" where
  "line_pat attr = [Lit attr, Plus Space, Lit ''='', Plus Space, Cap (Not nl)]"

text \<open>\<^verbatim>\<open>m.group(1)\<close> of a search, when it matched.\<close>

definition group1 :: "string list option \<Rightarrow> string option" where
  "group1 m = (case m of Some (g # gs) \<Rightarrow> Some g | _ \<Rightarrow> None)"

subsection \<open>Extracted data\<close>

text \<open>
  The dictionaries built for a variable and for an output: \<^verbatim>\<open>name\<close> is always set, the
  other keys only when their pattern matched.
\<close>

record variable =
  var_name :: string
  var_description :: "string option"
  var_type :: "string option"
  var_default :: "string option"

record output_var =
  out_name :: string
  out_description :: "string option"
  out_value :: "string option"

record module_data =
  inputs :: "variable list"
  outputs :: "output_var list"
  resources :: "string list"
  readme :: string

text \<open>The tuple \<^verbatim>\<open>(name, block)\<close> that \<^verbatim>\<open>findall\<close> gives for a pattern with two groups.\<close>

fun name_block :: "string list \<Rightarrow> string \<times> string" where
  "name_block (n # b # gs) = (n, b)"
| "name_block [n] = (n, [])"
| "name_block [] = ([], [])"

definition extract_blocks :: "tok list \<Rightarrow> string \<Rightarrow> (string \<times> string) list" where
  "extract_blocks p content = map name_block (findall p content)"

definition extract_description :: "string \<Rightarrow> string option" where
  "extract_description block = group1 (search desc_pat block)"

definition extract_line :: "string \<Rightarrow> string \<Rightarrow> string option" where
  "extract_line attr block = map_option strip (group1 (search (line_pat attr) block))"

definition variable_of :: "string \<times> string \<Rightarrow> variable" where
  "variable_of nb = (case nb of (name, block) \<Rightarrow>
     \<lparr>var_name = name,
      var_description = extract_description block,
      var_type = extract_line ''type'' block,
      var_default = extract_line ''default'' block\<rparr>)"

definition output_of :: "string \<times> string \<Rightarrow> output_var" where
  "output_of nb = (case nb of (name, block) \<Rightarrow>
     \<lparr>out_name = name,
      out_description = extract_description block,
      out_value = extract_line ''value'' block\<rparr>)"

definition extract_variables :: "string \<Rightarrow> variable list" where
  "extract_variables content = map variable_of (extract_blocks var_pat content)"

definition extract_outputs :: "string \<Rightarrow> output_var list" where
  "extract_outputs content = map output_of (extract_blocks out_pat content)"

subsection \<open>The scratch directory\<close>

text \<open>
  The temporary directory after \<^verbatim>\<open>terraform init\<close> is a tree; a path is the list of
  its components below the temporary directory.
\<close>

datatype fsnode = File string | Dir "(string \<times> fsnode) list"

type_synonym path = "string list"

fun lookup_node :: "fsnode \<Rightarrow> path \<Rightarrow> fsnode option" where
  "lookup_node n [] = Some n"
| "lookup_node (File c) (x # xs) = None"
| "lookup_node (Dir es) (x # xs) =
     (case map_of es x of None \<Rightarrow> None | Some m \<Rightarrow> lookup_node m xs)"

datatype os_error = NoSuchFile path | NotADirectory path | IsADirectory path

text \<open>\<^verbatim>\<open>os.path.exists\<close>\<close>

definition path_exists :: "fsnode \<Rightarrow> path \<Rightarrow> bool" where
  "path_exists t p = (lookup_node t p \<noteq> None)"

text \<open>\<^verbatim>\<open>os.listdir\<close>\<close>

definition listdir :: "fsnode \<Rightarrow> path \<Rightarrow> os_error + string list" where
  "listdir t p = (case lookup_node t p of
      None \<Rightarrow> Inl (NoSuchFile p)
    | Some (File c) \<Rightarrow> Inl (NotADirectory p)
    | Some (Dir es) \<Rightarrow> Inr (map fst es))"

text \<open>\<^verbatim>\<open>open(p, "r")\<close> followed by \<^verbatim>\<open>read()\<close>\<close>

definition read_file :: "fsnode \<Rightarrow> path \<Rightarrow> os_error + string" where
  "read_file t p = (case lookup_node t p of
      None \<Rightarrow> Inl (NoSuchFile p)
    | Some (File c) \<Rightarrow> Inr c
    | Some (Dir es) \<Rightarrow> Inl (IsADirectory p))"

text \<open>A file that is read only \<^verbatim>\<open>if os.path.exists(...)\<close>.\<close>

definition read_optional :: "fsnode \<Rightarrow> path \<Rightarrow> os_error + string option" where
  "read_optional t p =
     (if path_exists t p
      then (case read_file t p of Inl e \<Rightarrow> Inl e | Inr c \<Rightarrow> Inr (Some c))
      else Inr None)"

definition modules_dir :: path where
  "modules_dir = [''.terraform'', ''modules'']"

text \<open>
  The module directory: the conventional path when it exists, else the first entry of
  the modules directory whose name starts with \<^verbatim>\<open>analyzed_module\<close>, else the conventional
  path all the same.
\<close>

definition find_module_dir :: "fsnode \<Rightarrow> os_error + path" where
  "find_module_dir t =
     (let module_dir = modules_dir @ [''analyzed_module''] in
      if path_exists t module_dir then Inr module_dir
      else (case listdir t modules_dir of
              Inl e \<Rightarrow> Inl e
            | Inr ds \<Rightarrow>
                (case find (prefix ''analyzed_module'') ds of
                   Some d \<Rightarrow> Inr (modules_dir @ [d])
                 | None \<Rightarrow> Inr module_dir)))"

definition extract_module :: "fsnode \<Rightarrow> path \<Rightarrow> os_error + module_data" where
  "extract_module t module_dir =
     (case read_optional t (module_dir @ [''variables.tf'']) of
        Inl e \<Rightarrow> Inl e
      | Inr vars \<Rightarrow>
     (case read_optional t (module_dir @ [''outputs.tf'']) of
        Inl e \<Rightarrow> Inl e
      | Inr outs \<Rightarrow>
     (case read_optional t (module_dir @ [''README.md'']) of
        Inl e \<Rightarrow> Inl e
      | Inr rd \<Rightarrow>
          Inr \<lparr>inputs = (case vars of None \<Rightarrow> [] | Some c \<Rightarrow> extract_variables c),
               outputs = (case outs of None \<Rightarrow> [] | Some c \<Rightarrow> extract_outputs c),
               resources = [],
               readme = (case rd of None \<Rightarrow> [] | Some c \<Rightarrow> c)\<rparr>)))"

subsection \<open>The report\<close>

definition input_lines :: "variable \<Rightarrow> string list" where
  "input_lines input_var =
     (let name = var_name input_var;
          desc = (case var_description input_var of
                    None \<Rightarrow> ''No description provided'' | Some d \<Rightarrow> d);
          type = (case var_type input_var of None \<Rightarrow> ''any'' | Some t \<Rightarrow> t);
          default = (case var_default input_var of None \<Rightarrow> ''no default'' | Some d \<Rightarrow> d)
      in [''### '' @ name,
          ''- **Description:** '' @ desc,
          ''- **Type:** '' @ type,
          ''- **Default:** '' @ default @ [nl]])"

definition output_lines :: "output_var \<Rightarrow> string list" where
  "output_lines output_var =
     (let name = out_name output_var;
          desc = (case out_description output_var of
                    None \<Rightarrow> ''No description provided'' | Some d \<Rightarrow> d)
      in [''### '' @ name,
          ''- **Description:** '' @ desc @ [nl]])"

text \<open>The README as it is shown: cut after 2000 characters, with a note, when longer.\<close>

definition shown_readme :: "string \<Rightarrow> string" where
  "shown_readme r =
     (if length r > 2000
      then take 2000 r @ ''...'' @ [nl, nl] @ ''(README truncated due to length)''
      else r)"

definition formatted_output :: "string \<Rightarrow> string \<Rightarrow> module_data \<Rightarrow> string list" where
  "formatted_output module_id latest_version module_data =
     [''# Module Analysis: '' @ module_id @ [nl],
      ''**Version:** '' @ latest_version,
      ''**Registry Link:** https://registry.terraform.io/modules/'' @ module_id @ [nl],
      ''## Inputs ('' @ show_nat (length (inputs module_data)) @ '')'' @ [nl]]
     @ concat (map input_lines (inputs module_data))
     @ [''## Outputs ('' @ show_nat (length (outputs module_data)) @ '')'' @ [nl]]
     @ concat (map output_lines (outputs module_data))
     @ [''## README'' @ [nl, nl] @ shown_readme (readme module_data)]"

definition render :: "string \<Rightarrow> string \<Rightarrow> module_data \<Rightarrow> string" where
  "render module_id latest_version module_data =
     join_nl (formatted_output module_id latest_version module_data)"

text \<open>The lines of the report that come before the README section.\<close>

definition report_head :: "string \<Rightarrow> string \<Rightarrow> module_data \<Rightarrow> string list" where
  "report_head module_id latest_version module_data =
     butlast (formatted_output module_id latest_version module_data)"

subsection \<open>The world outside\<close>

text \<open>
  The response of the registry: \<open>json_version\<close> is what \<^verbatim>\<open>.json()\<close> followed by
  \<^verbatim>\<open>.get("version", "")\<close> gives for the body: the text of the exception when the body is
  not a JSON object, else the version when the object has one.
\<close>

record http_response =
  status_code :: int
  resp_text :: string
  json_version :: "string + string option"

text \<open>What \<^verbatim>\<open>subprocess.run\<close> reports, and the scratch directory it leaves.\<close>

record completed_process =
  returncode :: int
  stderr :: string
  tree :: fsnode

text \<open>
  \<open>http_get\<close> answers a URL, \<open>subprocess_run\<close> runs a command in a directory that holds
  \<^verbatim>\<open>main.tf\<close> with the given text; both may raise, and then give the text of the
  exception.  \<open>os_error_text\<close> is the text of an error of the file system.
\<close>

record world =
  http_get :: "string \<Rightarrow> string + http_response"
  subprocess_run :: "string list \<Rightarrow> string \<Rightarrow> string + completed_process"
  os_error_text :: "os_error \<Rightarrow> string"

text \<open>What a call does to the world, in order.\<close>

datatype event =
    HttpGet string
  | MakeTempDir
  | WriteMainTf string
  | SubprocessRun "string list"
  | RemoveTempDir

subsection \<open>The response\<close>

text \<open>
  The two shapes of the metadata dictionary: \<^verbatim>\<open>success\<close> false with \<^verbatim>\<open>error\<close>, or
  \<^verbatim>\<open>success\<close> true with \<^verbatim>\<open>module_id\<close>, \<^verbatim>\<open>version\<close> and \<^verbatim>\<open>module_data\<close>.
\<close>

datatype metadata =
    Failed string
  | Analyzed string string module_data

record mcp_response =
  content :: string
  metadata :: metadata

fun success :: "metadata \<Rightarrow> bool" where
  "success (Failed e) = False"
| "success (Analyzed i v d) = True"

text \<open>The handler of \<^verbatim>\<open>except Exception as e\<close>, on \<^verbatim>\<open>str(e)\<close>.\<close>

definition on_exception :: "string \<Rightarrow> mcp_response" where
  "on_exception e =
     \<lparr>content = ''An error occurred while analyzing the Terraform module: '' @ e,
      metadata = Failed e\<rparr>"

subsection \<open>analyze_module\<close>

definition main_tf :: "string \<Rightarrow> string \<Rightarrow> string \<Rightarrow> string \<Rightarrow> string" where
  "main_tf namespace name provider latest_version =
     [nl] @ ''module '' @ [dq] @ ''analyzed_module'' @ [dq] @ '' {'' @ [nl]
     @ ''  source  = '' @ [dq] @ namespace @ ''/'' @ name @ ''/'' @ provider @ [dq] @ [nl]
     @ ''  version = '' @ [dq] @ latest_version @ [dq] @ [nl]
     @ ''}'' @ [nl]"

definition registry_url :: "string \<Rightarrow> string \<Rightarrow> string \<Rightarrow> string" where
  "registry_url namespace name provider =
     ''https://registry.terraform.io/v1/modules/''
     @ namespace @ ''/'' @ name @ ''/'' @ provider"

text \<open>The body of \<^verbatim>\<open>with tempfile.TemporaryDirectory()\<close>: either the early response of
  a failed download or an exception, or the module data.\<close>

definition fetch_module ::
  "world \<Rightarrow> string \<Rightarrow> string \<Rightarrow> string \<Rightarrow> string \<Rightarrow> event list \<times> (mcp_response + module_data)" where
  "fetch_module w namespace name provider latest_version =
     (let cmd = [''terraform'', ''init'', ''-get=true''];
          manifest = main_tf namespace name provider latest_version;
          before = [MakeTempDir, WriteMainTf manifest, SubprocessRun cmd];
          evs = before @ [RemoveTempDir]
      in case subprocess_run w cmd manifest of
           Inl e \<Rightarrow> (evs, Inl (on_exception e))
         | Inr result \<Rightarrow>
             if returncode result \<noteq> 0
             then (evs, Inl \<lparr>content = ''Error downloading module: '' @ stderr result,
                              metadata = Failed (stderr result)\<rparr>)
             else (case find_module_dir (tree result) of
                     Inl e \<Rightarrow> (evs, Inl (on_exception (os_error_text w e)))
                   | Inr module_dir \<Rightarrow>
                       (case extract_module (tree result) module_dir of
                          Inl e \<Rightarrow> (evs, Inl (on_exception (os_error_text w e)))
                        | Inr module_data \<Rightarrow> (evs, Inr module_data))))"

definition analyze_module :: "world \<Rightarrow> string \<Rightarrow> event list \<times> mcp_response" where
  "analyze_module w module_id =
     (let parts = split_on (CHR ''/'') module_id in
      if length parts \<noteq> 3
      then ([], \<lparr>content = ''Invalid module ID: '' @ module_id
                            @ ''. Format should be namespace/name/provider.'',
                 metadata = Failed (''Invalid module ID: '' @ module_id)\<rparr>)
      else
        let namespace = parts ! 0; name = parts ! 1; provider = parts ! 2;
            details_url = registry_url namespace name provider
        in case http_get w details_url of
             Inl e \<Rightarrow> ([HttpGet details_url], on_exception e)
           | Inr details_response \<Rightarrow>
               if status_code details_response \<noteq> 200
               then ([HttpGet details_url],
                     \<lparr>content = ''Error fetching module details: ''
                                @ resp_text details_response,
                      metadata = Failed (resp_text details_response)\<rparr>)
               else (case json_version details_response of
                       Inl e \<Rightarrow> ([HttpGet details_url], on_exception e)
                     | Inr version \<Rightarrow>
                         let latest_version = (case version of None \<Rightarrow> [] | Some v \<Rightarrow> v)
                         in (case fetch_module w namespace name provider latest_version of
                               (evs, Inl response) \<Rightarrow> (HttpGet details_url # evs, response)
                             | (evs, Inr module_data) \<Rightarrow>
                                 (HttpGet details_url # evs,
                                  \<lparr>content = render module_id latest_version module_data,
                                   metadata = Analyzed module_id latest_version
                                                module_data\<rparr>))))"

text \<open>The shape that the two block patterns share, for a keyword.\<close>

definition block_pat :: "string \<Rightarrow> tok list" where
  "block_pat kw = [Lit kw, Plus Space, Lit [dq], Cap (Not dq), Lit [dq],
                   Plus Space, Lit ''{'', Cap (Not (CHR ''}'')), Lit ''}'']"



subsection \<open>Example runs\<close>

text \<open>
  A module with one variable \<^verbatim>\<open>region\<close>, one output \<^verbatim>\<open>bucket_name\<close> and a short README,
  as \<^verbatim>\<open>terraform init\<close> leaves it under the conventional path.
\<close>

definition example_variables_tf :: string where
  \<open>example_variables_tf =
     ''variable "region" {\<newline>  description = "The region"\<newline>  type = string\<newline>  default = "us-central1"\<newline>}\<newline>''\<close>

definition example_outputs_tf :: string where
  \<open>example_outputs_tf =
     ''output "bucket_name" {\<newline>  description = "The bucket"\<newline>  value = google_storage_bucket.b.name\<newline>}\<newline>''\<close>

definition example_readme :: string where
  "example_readme = ''# Example module for storing objects in a bucket.''"

definition example_tree :: fsnode where
  "example_tree =
     Dir [(''main.tf'', File ''module''),
          (''.terraform'',
           Dir [(''modules'',
                 Dir [(''modules.json'', File ''{}''),
                      (''analyzed_module'',
                       Dir [(''variables.tf'', File example_variables_tf),
                            (''outputs.tf'', File example_outputs_tf),
                            (''README.md'', File example_readme)])])])]"

text \<open>The modules directory is there, and nothing in it starts with the module's name.\<close>

definition bare_tree :: fsnode where
  "bare_tree =
     Dir [(''main.tf'', File ''module''),
          (''.terraform'', Dir [(''modules'', Dir [(''modules.json'', File ''{}'')])])]"

text \<open>
  The registry knows \<^verbatim>\<open>acme/bucket/google\<close> at version 1.2.0 and answers 404 for every
  other URL; \<^verbatim>\<open>terraform init\<close> succeeds and leaves the given tree.
\<close>

definition example_world :: "fsnode \<Rightarrow> world" where
  \<open>example_world t =
     \<lparr>http_get = (\<lambda>url.
        if url = ''https://registry.terraform.io/v1/modules/acme/bucket/google''
        then Inr \<lparr>status_code = 200, resp_text = ''{"version": "1.2.0"}'',
                  json_version = Inr (Some ''1.2.0'')\<rparr>
        else Inr \<lparr>status_code = 404, resp_text = ''{"errors":["Not Found"]}'',
                  json_version = Inr None\<rparr>),
      subprocess_run = (\<lambda>cmd manifest.
        Inr \<lparr>returncode = 0, stderr = [], tree = t\<rparr>),
      os_error_text = (\<lambda>e. ''OSError'')\<rparr>\<close>

section \<open>Properties\<close>

subsection \<open>Splitting and joining\<close>

lemma length_split_on: "length (split_on sep s) = Suc (count_list s sep)"
  by (induction s) (auto split: list.splits)

lemma split_on_nonempty: "split_on sep s \<noteq> []"
  by (induction s) (auto split: list.splits)

lemma split_on_no_sep: "sep \<notin> set a \<Longrightarrow> split_on sep a = [a]"
  by (induction a) auto

lemma split_on_append:
  "sep \<notin> set a \<Longrightarrow> split_on sep (a @ sep # rest) = a # split_on sep rest"
  by (induction a) (auto simp: split_on_nonempty split: list.splits)

lemma split_on_three:
  "CHR ''/'' \<notin> set ns \<Longrightarrow> CHR ''/'' \<notin> set name \<Longrightarrow> CHR ''/'' \<notin> set provider \<Longrightarrow>
   split_on (CHR ''/'') (ns @ ''/'' @ name @ ''/'' @ provider) = [ns, name, provider]"
  by (simp add: split_on_append split_on_no_sep)

lemma join_nl_snoc: "ls \<noteq> [] \<Longrightarrow> join_nl (ls @ [l]) = join_nl ls @ nl # l"
  by (induction ls rule: join_nl.induct) auto

subsection \<open>The identifier\<close>

lemma analyze_rejected:
  "length (split_on (CHR ''/'') mid) \<noteq> 3 \<Longrightarrow>
   analyze_module w mid =
     ([], \<lparr>content = ''Invalid module ID: '' @ mid
                      @ ''. Format should be namespace/name/provider.'',
           metadata = Failed (''Invalid module ID: '' @ mid)\<rparr>)"
  unfolding analyze_module_def Let_def by simp

lemma analyze_accepted:
  "split_on (CHR ''/'') mid = [ns, name, provider] \<Longrightarrow>
   \<exists>evs r. analyze_module w mid = (HttpGet (registry_url ns name provider) # evs, r)"
  unfolding analyze_module_def Let_def
  by (auto split: sum.splits prod.splits)

text \<open>
  Claim C1, as the code has it.  The identifier is accepted exactly when splitting it on
  \<^verbatim>\<open>/\<close> gives three segments, that is when it holds exactly two \<^verbatim>\<open>/\<close>; the segments may be
  empty.  Any other string is answered with the structured failure for an invalid
  identifier, and nothing else is done.  An accepted identifier is looked up in the
  registry under its three segments, and a well-formed \<^verbatim>\<open>ns/name/provider\<close> splits into
  exactly \<^verbatim>\<open>ns\<close>, \<^verbatim>\<open>name\<close> and \<^verbatim>\<open>provider\<close>.
\<close>

theorem C1_identifier:
  "((length (split_on (CHR ''/'') mid) = 3) = (count_list mid (CHR ''/'') = 2))
   \<and> (length (split_on (CHR ''/'') mid) \<noteq> 3 \<longrightarrow>
        analyze_module w mid =
          ([], \<lparr>content = ''Invalid module ID: '' @ mid
                           @ ''. Format should be namespace/name/provider.'',
                metadata = Failed (''Invalid module ID: '' @ mid)\<rparr>))
   \<and> (\<forall>a b c. split_on (CHR ''/'') mid = [a, b, c] \<longrightarrow>
        (\<exists>evs r. analyze_module w mid = (HttpGet (registry_url a b c) # evs, r)))
   \<and> (CHR ''/'' \<notin> set ns \<and> CHR ''/'' \<notin> set name \<and> CHR ''/'' \<notin> set provider \<longrightarrow>
        split_on (CHR ''/'') (ns @ ''/'' @ name @ ''/'' @ provider) = [ns, name, provider])"
  using analyze_rejected[of mid w] analyze_accepted[of mid _ _ _ w]
        split_on_three[of ns name provider]
  by (simp add: length_split_on)

theorem C1_identifier_witness:
  "split_on (CHR ''/'') ''acme/bucket/google'' = [''acme'', ''bucket'', ''google'']
   \<and> (\<exists>evs r. analyze_module (example_world bare_tree) ''acme/bucket/google''
         = (HttpGet (registry_url ''acme'' ''bucket'' ''google'') # evs, r))
   \<and> length (split_on (CHR ''/'') ''acme/bucket'') \<noteq> 3
   \<and> analyze_module (example_world bare_tree) ''acme/bucket''
       = ([], \<lparr>content = ''Invalid module ID: acme/bucket. Format should be namespace/name/provider.'',
                metadata = Failed ''Invalid module ID: acme/bucket''\<rparr>)"
  using C1_identifier[of "''acme/bucket/google''" "example_world bare_tree"
                         "''acme''" "''bucket''" "''google''"]
        C1_identifier[of "''acme/bucket''" "example_world bare_tree"
                         "''acme''" "''bucket''" "''google''"]
  by simp

text \<open>
  The identifier \<^verbatim>\<open>a//b\<close> has an empty segment and is accepted all the same: the registry
  is asked for it, and the failure that comes back is the registry's.
\<close>

theorem C1_counterexample:
  \<open>split_on (CHR ''/'') ''a//b'' = [''a'', [], ''b'']
   \<and> analyze_module (example_world bare_tree) ''a//b''
       = ([HttpGet ''https://registry.terraform.io/v1/modules/a//b''],
          \<lparr>content = ''Error fetching module details: {"errors":["Not Found"]}'',
           metadata = Failed ''{"errors":["Not Found"]}''\<rparr>)\<close>
  by (simp add: analyze_module_def example_world_def registry_url_def)

subsection \<open>The registry lookup\<close>

lemma analyze_not_200:
  "split_on (CHR ''/'') mid = [ns, name, provider] \<Longrightarrow>
   http_get w (registry_url ns name provider) = Inr resp \<Longrightarrow>
   status_code resp \<noteq> 200 \<Longrightarrow>
   analyze_module w mid =
     ([HttpGet (registry_url ns name provider)],
      \<lparr>content = ''Error fetching module details: '' @ resp_text resp,
       metadata = Failed (resp_text resp)\<rparr>)"
  unfolding analyze_module_def Let_def by simp

text \<open>
  Claim C2.  When the registry answers the lookup of an accepted identifier with a status
  other than 200, the result has \<^verbatim>\<open>success\<close> false, its message holds the body of the
  response as it is, and the only thing done is the lookup: no subprocess is run.
\<close>

theorem C2_registry_failure:
  assumes "split_on (CHR ''/'') mid = [ns, name, provider]"
    and "http_get w (registry_url ns name provider) = Inr resp"
    and "status_code resp \<noteq> 200"
    and "analyze_module w mid = (evs, r)"
  shows "\<not> success (metadata r)
     \<and> content r = ''Error fetching module details: '' @ resp_text resp
     \<and> metadata r = Failed (resp_text resp)
     \<and> sublist (resp_text resp) (content r)
     \<and> evs = [HttpGet (registry_url ns name provider)]
     \<and> (\<forall>cmd. SubprocessRun cmd \<notin> set evs)"
proof -
  from analyze_not_200[OF assms(1-3)] assms(4)
  have e: "evs = [HttpGet (registry_url ns name provider)]"
    and r: "r = \<lparr>content = ''Error fetching module details: '' @ resp_text resp,
                 metadata = Failed (resp_text resp)\<rparr>"
    by simp_all
  have "suffix (resp_text resp) (content r)"
    unfolding r by (simp only: mcp_response.simps suffix_appendI suffix_order.refl)
  then have "sublist (resp_text resp) (content r)"
    by (rule suffix_imp_sublist)
  then show ?thesis using e r by simp
qed

theorem C2_registry_failure_witness:
  \<open>\<not> success (metadata (snd (analyze_module (example_world example_tree) ''acme/nothing/google'')))
   \<and> content (snd (analyze_module (example_world example_tree) ''acme/nothing/google''))
       = ''Error fetching module details: {"errors":["Not Found"]}''
   \<and> (\<forall>cmd. SubprocessRun cmd
         \<notin> set (fst (analyze_module (example_world example_tree) ''acme/nothing/google'')))\<close>
proof -
  let ?w = "example_world example_tree"
  let ?resp = \<open>\<lparr>status_code = 404, resp_text = ''{"errors":["Not Found"]}'',
                 json_version = Inr None\<rparr>\<close>
  have s: "split_on (CHR ''/'') ''acme/nothing/google'' = [''acme'', ''nothing'', ''google'']"
    by simp
  have h: "http_get ?w (registry_url ''acme'' ''nothing'' ''google'') = Inr ?resp"
    by (simp add: example_world_def registry_url_def)
  have c: "status_code ?resp \<noteq> 200" by simp
  obtain evs r where a: "analyze_module ?w ''acme/nothing/google'' = (evs, r)"
    by (cases "analyze_module ?w ''acme/nothing/google''")
  from C2_registry_failure[OF s h c a] a show ?thesis by simp
qed

subsection \<open>Block extraction on an example\<close>

text \<open>
  Claim C4, as the code has it.  On the source text
  \<^verbatim>\<open>variable "foo" {\n description = "d"\n}\n\<close> the extraction of \<^verbatim>\<open>variable\<close> blocks gives
  exactly one block, named \<^verbatim>\<open>foo\<close>; its body is everything between the braces, which
  starts with the line break after the opening brace: \<^verbatim>\<open>\n description = "d"\n\<close>.
\<close>

theorem C4_blocks:
  \<open>extract_blocks var_pat ''variable "foo" {\<newline> description = "d"\<newline>}\<newline>''
     = [(''foo'', ''\<newline> description = "d"\<newline>'')]\<close>
  by (simp add: extract_blocks_def var_pat_def dq_def nl_def is_space_def)

text \<open>The body is not the text without that line break.\<close>

theorem C4_counterexample:
  \<open>extract_blocks var_pat ''variable "foo" {\<newline> description = "d"\<newline>}\<newline>''
     \<noteq> [(''foo'', '' description = "d"\<newline>'')]\<close>
  by (simp add: extract_blocks_def var_pat_def dq_def nl_def is_space_def)

subsection \<open>The README section\<close>

lemma formatted_output_head:
  "formatted_output mid v md
     = report_head mid v md @ [''## README'' @ [nl, nl] @ shown_readme (readme md)]"
  unfolding report_head_def formatted_output_def
  by (simp only: butlast_snoc flip: append_assoc)

lemma report_head_nonempty: "report_head mid v md \<noteq> []"
  unfolding report_head_def formatted_output_def
  by (simp only: butlast_snoc flip: append_assoc) simp

lemma render_readme:
  "render mid v md = join_nl (report_head mid v md) @ [nl] @ ''## README'' @ [nl, nl]
                     @ shown_readme (readme md)"
  unfolding render_def formatted_output_head
  by (simp only: join_nl_snoc[OF report_head_nonempty] append_Cons append_Nil)

text \<open>
  Claim C5.  The report ends with its README section.  For a README of more than 2000
  characters the section is the heading, the first 2000 characters of the README and the
  fixed note \<^verbatim>\<open>...\n\n(README truncated due to length)\<close>; for a README of at most 2000
  characters it is the heading and the README as it is, with nothing after it.
\<close>

theorem C5_readme_truncation:
  "(2000 < length (readme md) \<longrightarrow>
      suffix (''## README'' @ [nl, nl] @ take 2000 (readme md) @ ''...'' @ [nl, nl]
              @ ''(README truncated due to length)'') (render mid v md))
   \<and> (length (readme md) \<le> 2000 \<longrightarrow>
      suffix (''## README'' @ [nl, nl] @ readme md) (render mid v md))"
  unfolding render_readme shown_readme_def suffix_def
  by (auto simp del: append_assoc)

theorem C5_readme_truncation_witness:
  "suffix (''## README'' @ [nl, nl] @ replicate 2000 (CHR ''x'') @ ''...'' @ [nl, nl]
           @ ''(README truncated due to length)'')
     (render ''acme/bucket/google'' ''1.2.0''
        \<lparr>inputs = [], outputs = [], resources = [], readme = replicate 2001 (CHR ''x'')\<rparr>)
   \<and> suffix (''## README'' @ [nl, nl] @ ''short'')
     (render ''acme/bucket/google'' ''1.2.0''
        \<lparr>inputs = [], outputs = [], resources = [], readme = ''short''\<rparr>)"
  using C5_readme_truncation[of "\<lparr>inputs = [], outputs = [], resources = [],
                                   readme = replicate 2001 (CHR ''x'')\<rparr>"
                                "''acme/bucket/google''" "''1.2.0''"]
        C5_readme_truncation[of "\<lparr>inputs = [], outputs = [], resources = [],
                                   readme = ''short''\<rparr>"
                                "''acme/bucket/google''" "''1.2.0''"]
  by simp

subsection \<open>The example run\<close>

lemma example_variables:
  \<open>extract_variables example_variables_tf =
     [\<lparr>var_name = ''region'', var_description = Some ''The region'',
       var_type = Some ''string'', var_default = Some ''"us-central1"''\<rparr>]\<close>
  by (simp add: extract_variables_def extract_blocks_def variable_of_def extract_description_def
        extract_line_def group1_def strip_def line_pat_def desc_pat_def
        example_variables_tf_def var_pat_def dq_def nl_def is_space_def)

lemma example_outputs:
  \<open>extract_outputs example_outputs_tf =
     [\<lparr>out_name = ''bucket_name'', out_description = Some ''The bucket'',
       out_value = Some ''google_storage_bucket.b.name''\<rparr>]\<close>
  by (simp add: extract_outputs_def extract_blocks_def output_of_def extract_description_def
        extract_line_def group1_def strip_def line_pat_def desc_pat_def
        example_outputs_tf_def out_pat_def dq_def nl_def is_space_def)

lemma example_find_dir: "find_module_dir example_tree = Inr [''.terraform'', ''modules'', ''analyzed_module'']"
  by (simp add: find_module_dir_def example_tree_def modules_dir_def path_exists_def)

lemma example_extract:
  "extract_module example_tree [''.terraform'', ''modules'', ''analyzed_module'']
     = Inr \<lparr>inputs = extract_variables example_variables_tf,
             outputs = extract_outputs example_outputs_tf,
             resources = [], readme = example_readme\<rparr>"
  by (simp add: extract_module_def read_optional_def path_exists_def read_file_def example_tree_def)

lemma example_fetch:
  "fetch_module (example_world example_tree) ''acme'' ''bucket'' ''google'' ''1.2.0''
     = ([MakeTempDir, WriteMainTf (main_tf ''acme'' ''bucket'' ''google'' ''1.2.0''),
         SubprocessRun [''terraform'', ''init'', ''-get=true''], RemoveTempDir],
        Inr \<lparr>inputs = extract_variables example_variables_tf,
             outputs = extract_outputs example_outputs_tf,
             resources = [], readme = example_readme\<rparr>)"
  unfolding fetch_module_def Let_def
  by (simp add: example_world_def example_find_dir example_extract)

lemma example_run:
  "analyze_module (example_world example_tree) ''acme/bucket/google''
     = ([HttpGet (registry_url ''acme'' ''bucket'' ''google''), MakeTempDir,
         WriteMainTf (main_tf ''acme'' ''bucket'' ''google'' ''1.2.0''),
         SubprocessRun [''terraform'', ''init'', ''-get=true''], RemoveTempDir],
        \<lparr>content = render ''acme/bucket/google'' ''1.2.0''
             \<lparr>inputs = extract_variables example_variables_tf,
              outputs = extract_outputs example_outputs_tf,
              resources = [], readme = example_readme\<rparr>,
         metadata = Analyzed ''acme/bucket/google'' ''1.2.0''
             \<lparr>inputs = extract_variables example_variables_tf,
              outputs = extract_outputs example_outputs_tf,
              resources = [], readme = example_readme\<rparr>\<rparr>)"
proof -
  have s: "split_on (CHR ''/'') ''acme/bucket/google'' = [''acme'', ''bucket'', ''google'']"
    by simp
  have h: "http_get (example_world example_tree) (registry_url ''acme'' ''bucket'' ''google'')
         = Inr \<lparr>status_code = 200, resp_text = [CHR 0x7B, CHR 0x22] @ ''version'' @ [CHR 0x22] @ '': '' @ [CHR 0x22] @ ''1.2.0'' @ [CHR 0x22, CHR 0x7D],
                  json_version = Inr (Some ''1.2.0'')\<rparr>"
    by (simp add: example_world_def registry_url_def)
  show ?thesis
    unfolding analyze_module_def Let_def s
    by (simp add: h example_fetch del: split_on.simps)
qed

subsection \<open>The resources\<close>

text \<open>
  Claim C9.  The module data of every successful analysis has the field \<^verbatim>\<open>resources\<close>, and
  it is the empty list, whatever the module holds: nothing ever writes to it.
\<close>

theorem C9_resources:
  "analyze_module w mid = (evs, r) \<Longrightarrow> metadata r = Analyzed i v d \<Longrightarrow> resources d = []"
  by (auto simp: analyze_module_def fetch_module_def extract_module_def on_exception_def Let_def
       split: if_splits sum.splits prod.splits)

theorem C9_resources_witness:
  "\<exists>evs r i v d. analyze_module (example_world example_tree) ''acme/bucket/google'' = (evs, r)
      \<and> metadata r = Analyzed i v d \<and> length (inputs d) = 1 \<and> resources d = []"
proof -
  obtain evs r where a: "analyze_module (example_world example_tree) ''acme/bucket/google'' = (evs, r)"
    by (cases "analyze_module (example_world example_tree) ''acme/bucket/google''")
  with example_run have m: "metadata r = Analyzed ''acme/bucket/google'' ''1.2.0''
             \<lparr>inputs = extract_variables example_variables_tf,
              outputs = extract_outputs example_outputs_tf,
              resources = [], readme = example_readme\<rparr>"
    by auto
  from C9_resources[OF a m] a m show ?thesis by (simp add: example_variables)
qed

subsection \<open>Matching\<close>

lemma var_pat_block: "var_pat = block_pat ''variable''"
  by (simp add: var_pat_def block_pat_def)

lemma out_pat_block: "out_pat = block_pat ''output''"
  by (simp add: out_pat_def block_pat_def)

lemma first_fit_Some:
  "first_fit k s n = Some (w, r) \<Longrightarrow>
   \<exists>m. 1 \<le> m \<and> m \<le> n \<and> w = take m s \<and> k (drop m s) = Some r
       \<and> (\<forall>j. m < j \<and> j \<le> n \<longrightarrow> k (drop j s) = None)"
proof (induction n)
  case 0
  then show ?case by simp
next
  case (Suc n)
  show ?case
  proof (cases "k (drop (Suc n) s)")
    case None
    with Suc.prems have "first_fit k s n = Some (w, r)" by simp
    from Suc.IH[OF this] obtain m where m: "1 \<le> m" "m \<le> n" "w = take m s"
      "k (drop m s) = Some r" "\<forall>j. m < j \<and> j \<le> n \<longrightarrow> k (drop j s) = None" by blast
    have "\<forall>j. m < j \<and> j \<le> Suc n \<longrightarrow> k (drop j s) = None"
      using m(5) None by (auto simp: le_Suc_eq)
    with m show ?thesis by (intro exI[of _ m]) auto
  next
    case (Some a)
    with Suc.prems have "w = take (Suc n) s" "a = r" by auto
    with Some show ?thesis by (intro exI[of _ "Suc n"]) auto
  qed
qed

lemma first_fit_None:
  "(first_fit k s n = None) = (\<forall>j. 1 \<le> j \<and> j \<le> n \<longrightarrow> k (drop j s) = None)"
proof (induction n)
  case 0
  then show ?case by simp
next
  case (Suc n)
  show ?case
  proof (cases "k (drop (Suc n) s)")
    case None
    then show ?thesis using Suc by (auto simp: le_Suc_eq)
  next
    case (Some a)
    then show ?thesis by (auto intro: exI[of _ "Suc n"])
  qed
qed

lemma take_run: "m \<le> length (takeWhile P s) \<Longrightarrow> \<forall>x\<in>set (take m s). P x"
proof -
  assume "m \<le> length (takeWhile P s)"
  then have "take m s = take m (takeWhile P s)"
    by (metis takeWhile_dropWhile_id take_append diff_is_0_eq' take_0 append_Nil2)
  then show ?thesis by (metis in_set_takeD set_takeWhileD)
qed

text \<open>What a match of a repetition followed by the rest of a pattern consumed.\<close>

lemma match_Lit_iff:
  "(match_here (Lit l # p) s = Some r) = (\<exists>s'. s = l @ s' \<and> match_here p s' = Some r)"
  by (auto simp: prefix_def)

lemma match_Plus_sound:
  assumes "match_here (Plus c # p) s = Some (gs, r)"
  shows "\<exists>w s'. s = w @ s' \<and> w \<noteq> [] \<and> (\<forall>x\<in>set w. in_class c x)
                \<and> match_here p s' = Some (gs, r)"
proof -
  let ?n = "length (takeWhile (in_class c) s)"
  from assms obtain w where "first_fit (match_here p) s ?n = Some (w, gs, r)"
    by (auto split: option.splits)
  from first_fit_Some[OF this] obtain m where m: "1 \<le> m" "m \<le> ?n" "w = take m s"
    "match_here p (drop m s) = Some (gs, r)" by blast
  have "m \<le> length s" using m(2) length_takeWhile_le[of "in_class c" s] by linarith
  with m(1) have "take m s \<noteq> []" by auto
  moreover have "\<forall>x\<in>set (take m s). in_class c x" using take_run[OF m(2)] .
  moreover have "s = take m s @ drop m s" by simp
  ultimately show ?thesis using m(4) by blast
qed

lemma match_Cap_sound:
  assumes "match_here (Cap c # p) s = Some (gs, r)"
  shows "\<exists>w s' gs'. s = w @ s' \<and> w \<noteq> [] \<and> (\<forall>x\<in>set w. in_class c x) \<and> gs = w # gs'
                    \<and> match_here p s' = Some (gs', r)"
proof -
  let ?n = "length (takeWhile (in_class c) s)"
  from assms obtain w gs' where f: "first_fit (match_here p) s ?n = Some (w, gs', r)"
    and g: "gs = w # gs'"
    by (auto split: option.splits)
  from first_fit_Some[OF f] obtain m where m: "1 \<le> m" "m \<le> ?n" "w = take m s"
    "match_here p (drop m s) = Some (gs', r)" by blast
  have "m \<le> length s" using m(2) length_takeWhile_le[of "in_class c" s] by linarith
  with m(1) have "take m s \<noteq> []" by auto
  moreover have "\<forall>x\<in>set (take m s). in_class c x" using take_run[OF m(2)] .
  moreover have "s = take m s @ drop m s" by simp
  ultimately show ?thesis using m(3,4) g by blast
qed

text \<open>A repetition in front of a character outside its class takes the whole run.\<close>

lemma first_fit_whole_run:
  assumes w: "w \<noteq> []" "\<forall>y\<in>set w. P y" and x: "\<not> P x"
    and k: "k (x # t) = Some r"
  shows "first_fit k (w @ x # t) (length (takeWhile P (w @ x # t))) = Some (w, r)"
proof -
  have tw: "takeWhile P (w @ x # t) = w" using w(2) x by (simp add: takeWhile_append2)
  obtain n where n: "length w = Suc n" using w(1) by (cases w) auto
  show ?thesis unfolding tw n using k n by simp
qed

lemma match_Plus_whole:
  assumes "w \<noteq> []" "\<forall>y\<in>set w. in_class c y" "\<not> in_class c x"
    and "match_here p (x # t) = Some (gs, r)"
  shows "match_here (Plus c # p) (w @ x # t) = Some (gs, r)"
  using first_fit_whole_run[of w "in_class c" x "match_here p" t "(gs, r)", OF assms]
  by simp

lemma match_Cap_whole:
  assumes "w \<noteq> []" "\<forall>y\<in>set w. in_class c y" "\<not> in_class c x"
    and "match_here p (x # t) = Some (gs, r)"
  shows "match_here (Cap c # p) (w @ x # t) = Some (w # gs, r)"
  using first_fit_whole_run[of w "in_class c" x "match_here p" t "(gs, r)", OF assms]
  by simp

lemma not_space_dq: "\<not> is_space dq"
  by (simp add: is_space_def dq_def)

lemma not_space_brace: "\<not> is_space (CHR ''{'')"
  by (simp add: is_space_def)


lemma match_block_sound:
  assumes "match_here (block_pat kw) s = Some (gs, r)"
  shows "\<exists>ws1 n ws2 b. s = kw @ ws1 @ [dq] @ n @ [dq] @ ws2 @ ''{'' @ b @ ''}'' @ r
           \<and> gs = [n, b]
           \<and> ws1 \<noteq> [] \<and> (\<forall>x\<in>set ws1. is_space x) \<and> n \<noteq> [] \<and> dq \<notin> set n
           \<and> ws2 \<noteq> [] \<and> (\<forall>x\<in>set ws2. is_space x) \<and> b \<noteq> [] \<and> CHR ''}'' \<notin> set b"
proof -
  from assms obtain s1 where s1: "s = kw @ s1"
    and m1: "match_here (Plus Space # Lit [dq] # Cap (Not dq) # Lit [dq] # Plus Space
               # Lit ''{'' # Cap (Not (CHR ''}'')) # [Lit ''}'']) s1 = Some (gs, r)"
    unfolding block_pat_def match_Lit_iff by blast
  from match_Plus_sound[OF m1] obtain ws1 s2 where s2: "s1 = ws1 @ s2" "ws1 \<noteq> []"
    "\<forall>x\<in>set ws1. in_class Space x"
    and m2: "match_here (Lit [dq] # Cap (Not dq) # Lit [dq] # Plus Space
               # Lit ''{'' # Cap (Not (CHR ''}'')) # [Lit ''}'']) s2 = Some (gs, r)"
    by blast
  from m2 obtain s3 where s3: "s2 = [dq] @ s3"
    and m3: "match_here (Cap (Not dq) # Lit [dq] # Plus Space
               # Lit ''{'' # Cap (Not (CHR ''}'')) # [Lit ''}'']) s3 = Some (gs, r)"
    unfolding match_Lit_iff by blast
  from match_Cap_sound[OF m3] obtain n s4 gs4 where s4: "s3 = n @ s4" "n \<noteq> []"
    "\<forall>x\<in>set n. in_class (Not dq) x" "gs = n # gs4"
    and m4: "match_here (Lit [dq] # Plus Space
               # Lit ''{'' # Cap (Not (CHR ''}'')) # [Lit ''}'']) s4 = Some (gs4, r)"
    by blast
  from m4 obtain s5 where s5: "s4 = [dq] @ s5"
    and m5: "match_here (Plus Space # Lit ''{'' # Cap (Not (CHR ''}'')) # [Lit ''}'']) s5
               = Some (gs4, r)"
    unfolding match_Lit_iff by blast
  from match_Plus_sound[OF m5] obtain ws2 s6 where s6: "s5 = ws2 @ s6" "ws2 \<noteq> []"
    "\<forall>x\<in>set ws2. in_class Space x"
    and m6: "match_here (Lit ''{'' # Cap (Not (CHR ''}'')) # [Lit ''}'']) s6 = Some (gs4, r)"
    by blast
  from m6 obtain s7 where s7: "s6 = ''{'' @ s7"
    and m7: "match_here (Cap (Not (CHR ''}'')) # [Lit ''}'']) s7 = Some (gs4, r)"
    unfolding match_Lit_iff by blast
  from match_Cap_sound[OF m7] obtain b s8 gs8 where s8: "s7 = b @ s8" "b \<noteq> []"
    "\<forall>x\<in>set b. in_class (Not (CHR ''}'')) x" "gs4 = b # gs8"
    and m8: "match_here [Lit ''}''] s8 = Some (gs8, r)"
    by blast
  from m8 have s9: "s8 = ''}'' @ r" "gs8 = []"
    unfolding match_Lit_iff by auto
  have "s = kw @ ws1 @ [dq] @ n @ [dq] @ ws2 @ ''{'' @ b @ ''}'' @ r"
    using s1 s2(1) s3 s4(1) s5 s6(1) s7 s8(1) s9(1) by simp
  moreover have "gs = [n, b]" using s4(4) s8(4) s9(2) by simp
  moreover have "dq \<notin> set n" using s4(3) by auto
  moreover have "CHR ''}'' \<notin> set b" using s8(3) by auto
  ultimately show ?thesis using s2(2,3) s4(2) s6(2,3) s8(2) by auto
qed

lemma match_block_complete:
  assumes "ws1 \<noteq> []" "\<forall>x\<in>set ws1. is_space x" "n \<noteq> []" "dq \<notin> set n"
    "ws2 \<noteq> []" "\<forall>x\<in>set ws2. is_space x" "b \<noteq> []" "CHR ''}'' \<notin> set b"
  shows "match_here (block_pat kw)
            (kw @ ws1 @ [dq] @ n @ [dq] @ ws2 @ ''{'' @ b @ ''}'' @ r) = Some ([n, b], r)"
proof -
  have m8: "match_here [Lit ''}''] (CHR ''}'' # r) = Some ([], r)" by simp
  have m7: "match_here (Cap (Not (CHR ''}'')) # [Lit ''}'']) (b @ CHR ''}'' # r) = Some ([b], r)"
    using assms(7,8) by (intro match_Cap_whole[OF _ _ _ m8]) auto
  have m6: "match_here (Lit ''{'' # Cap (Not (CHR ''}'')) # [Lit ''}'']) (CHR ''{'' # b @ CHR ''}'' # r)
              = Some ([b], r)"
    using m7 unfolding match_Lit_iff by simp
  have m5: "match_here (Plus Space # Lit ''{'' # Cap (Not (CHR ''}'')) # [Lit ''}''])
              (ws2 @ CHR ''{'' # b @ CHR ''}'' # r) = Some ([b], r)"
    using assms(5,6) not_space_brace by (intro match_Plus_whole[OF _ _ _ m6]) auto
  have m4: "match_here (Lit [dq] # Plus Space # Lit ''{'' # Cap (Not (CHR ''}'')) # [Lit ''}''])
              (dq # ws2 @ CHR ''{'' # b @ CHR ''}'' # r) = Some ([b], r)"
    using m5 unfolding match_Lit_iff by simp
  have m3: "match_here (Cap (Not dq) # Lit [dq] # Plus Space # Lit ''{''
              # Cap (Not (CHR ''}'')) # [Lit ''}''])
              (n @ dq # ws2 @ CHR ''{'' # b @ CHR ''}'' # r) = Some ([n, b], r)"
    using assms(3,4) by (intro match_Cap_whole[OF _ _ _ m4]) auto
  have m2: "match_here (Lit [dq] # Cap (Not dq) # Lit [dq] # Plus Space # Lit ''{''
              # Cap (Not (CHR ''}'')) # [Lit ''}''])
              (dq # n @ dq # ws2 @ CHR ''{'' # b @ CHR ''}'' # r) = Some ([n, b], r)"
    using m3 unfolding match_Lit_iff by simp
  have m1: "match_here (Plus Space # Lit [dq] # Cap (Not dq) # Lit [dq] # Plus Space # Lit ''{''
              # Cap (Not (CHR ''}'')) # [Lit ''}''])
              (ws1 @ dq # n @ dq # ws2 @ CHR ''{'' # b @ CHR ''}'' # r) = Some ([n, b], r)"
    using assms(1,2) not_space_dq by (intro match_Plus_whole[OF _ _ _ m2]) auto
  show ?thesis unfolding block_pat_def match_Lit_iff using m1 by simp
qed

lemma match_suffix: "match_here p s = Some (gs, r) \<Longrightarrow> suffix r s"
proof (induction p arbitrary: s gs)
  case Nil
  then show ?case by simp
next
  case (Cons t p)
  show ?case
  proof (cases t)
    case (Lit l)
    with Cons.prems obtain s' where "s = l @ s'" "match_here p s' = Some (gs, r)"
      using match_Lit_iff by blast
    with Cons.IH show ?thesis by (auto intro: suffix_appendI)
  next
    case (Plus c)
    with match_Plus_sound[of c p s gs r] Cons.prems
    obtain w s' where "s = w @ s'" "match_here p s' = Some (gs, r)" by blast
    with Cons.IH show ?thesis by (auto intro: suffix_appendI)
  next
    case (Cap c)
    with match_Cap_sound[of c p s gs r] Cons.prems
    obtain w s' gs' where "s = w @ s'" "match_here p s' = Some (gs', r)" by blast
    with Cons.IH show ?thesis by (auto intro: suffix_appendI)
  qed
qed

lemma findall_sound:
  "gs \<in> set (findall p s) \<Longrightarrow> \<exists>t r. suffix t s \<and> match_here p t = Some (gs, r)"
proof (induction p s rule: findall.induct)
  case (1 p)
  then obtain r where "match_here p [] = Some (gs, r)"
    by (cases "match_here p []") auto
  then have "suffix [] [] \<and> match_here p [] = Some (gs, r)" by simp
  then show ?case by blast
next
  case (2 p c cs)
  show ?case
  proof (cases "match_here p (c # cs)")
    case None
    with "2.prems" have "gs \<in> set (findall p cs)" by simp
    from "2.IH"(1)[OF None this]
    obtain t r where "suffix t cs" "match_here p t = Some (gs, r)" by blast
    then show ?thesis by (auto intro: suffix_ConsI)
  next
    case (Some a)
    obtain g r where a: "a = (g, r)" by (cases a)
    show ?thesis
    proof (cases "gs = g")
      case True
      with Some a have "suffix (c # cs) (c # cs) \<and> match_here p (c # cs) = Some (gs, r)"
        by simp
      then show ?thesis by blast
    next
      case ne: False
      have sr: "suffix r (c # cs)" using match_suffix Some a by blast
      show ?thesis
      proof (cases "length r < length (c # cs)")
        case True
        with "2.prems" Some a ne have "gs \<in> set (findall p r)" by simp
        from "2.IH"(2)[OF Some a[symmetric] True this]
        obtain t r' where "suffix t r" "match_here p t = Some (gs, r')" by blast
        with sr show ?thesis by (meson suffix_order.trans)
      next
        case False
        with "2.prems" Some a ne have "gs \<in> set (findall p cs)" by simp
        from "2.IH"(3)[OF Some a[symmetric] False this]
        obtain t r' where "suffix t cs" "match_here p t = Some (gs, r')" by blast
        then show ?thesis by (auto intro: suffix_ConsI)
      qed
    qed
  qed
qed

lemma findall_head:
  assumes "match_here p s = Some (gs, r)" "length r < length s"
  shows "findall p s = gs # findall p r"
  using assms by (cases s) auto

lemma extract_blocks_sound:
  assumes "(n, b) \<in> set (extract_blocks (block_pat kw) s)"
  shows "\<exists>pre ws1 ws2 post.
           s = pre @ kw @ ws1 @ [dq] @ n @ [dq] @ ws2 @ ''{'' @ b @ ''}'' @ post
           \<and> ws1 \<noteq> [] \<and> (\<forall>x\<in>set ws1. is_space x) \<and> n \<noteq> [] \<and> dq \<notin> set n
           \<and> ws2 \<noteq> [] \<and> (\<forall>x\<in>set ws2. is_space x) \<and> b \<noteq> [] \<and> CHR ''}'' \<notin> set b"
proof -
  from assms obtain gs where gs: "gs \<in> set (findall (block_pat kw) s)" "name_block gs = (n, b)"
    unfolding extract_blocks_def by auto
  from findall_sound[OF gs(1)] obtain t r where t: "suffix t s"
    "match_here (block_pat kw) t = Some (gs, r)" by blast
  from match_block_sound[OF t(2)] obtain ws1 n' ws2 b' where
    d: "t = kw @ ws1 @ [dq] @ n' @ [dq] @ ws2 @ ''{'' @ b' @ ''}'' @ r" "gs = [n', b']"
       "ws1 \<noteq> []" "\<forall>x\<in>set ws1. is_space x" "n' \<noteq> []" "dq \<notin> set n'"
       "ws2 \<noteq> []" "\<forall>x\<in>set ws2. is_space x" "b' \<noteq> []" "CHR ''}'' \<notin> set b'"
    by blast
  from d(2) gs(2) have e: "n' = n" "b' = b" by simp_all
  from t(1) obtain pre where "s = pre @ t" unfolding suffix_def by blast
  with d e show ?thesis by blast
qed

lemma extract_blocks_head:
  assumes "ws1 \<noteq> []" "\<forall>x\<in>set ws1. is_space x" "n \<noteq> []" "dq \<notin> set n"
    "ws2 \<noteq> []" "\<forall>x\<in>set ws2. is_space x" "b \<noteq> []" "CHR ''}'' \<notin> set b"
  shows "extract_blocks (block_pat kw)
            (kw @ ws1 @ [dq] @ n @ [dq] @ ws2 @ ''{'' @ b @ ''}'' @ rest)
         = (n, b) # extract_blocks (block_pat kw) rest"
proof -
  let ?s = "kw @ ws1 @ [dq] @ n @ [dq] @ ws2 @ ''{'' @ b @ ''}'' @ rest"
  have "match_here (block_pat kw) ?s = Some ([n, b], rest)"
    using match_block_complete[OF assms] .
  moreover have "length rest < length ?s" by simp
  ultimately have "findall (block_pat kw) ?s = [n, b] # findall (block_pat kw) rest"
    by (rule findall_head)
  then show ?thesis unfolding extract_blocks_def by simp
qed

lemma first_fit_Lit:
  assumes "\<forall>y\<in>set w. P y" "t = [] \<or> \<not> P (hd t)" "\<not> P z"
  shows "first_fit (match_here (Lit (z # l) # p)) (w @ t) (length (takeWhile P (w @ t)))
         = (if w = [] then None else map_option (Pair w) (match_here (Lit (z # l) # p) t))"
proof -
  let ?k = "match_here (Lit (z # l) # p)"
  have tw: "takeWhile P (w @ t) = w"
    using assms(1,2) by (cases t) (simp_all add: takeWhile_append2)
  have inner: "?k (drop j (w @ t)) = None" if "j < length w" for j
  proof -
    from that have "drop j (w @ t) = (w ! j) # drop (Suc j) w @ t"
      by (simp add: Cons_nth_drop_Suc)
    moreover from that assms(1) have "P (w ! j)" by simp
    with assms(3) have "w ! j \<noteq> z" by auto
    ultimately show ?thesis by simp
  qed
  show ?thesis
  proof (cases w)
    case Nil
    then show ?thesis unfolding tw by simp
  next
    case (Cons a w')
    then have len: "length w = Suc (length w')" by simp
    have "first_fit ?k (w @ t) (length w') = None"
      unfolding first_fit_None using inner len by auto
    then show ?thesis unfolding tw len using Cons by (simp split: option.splits)
  qed
qed

lemma match_Plus_Lit:
  assumes "\<forall>y\<in>set w. in_class c y" "t = [] \<or> \<not> in_class c (hd t)" "\<not> in_class c z"
  shows "match_here (Plus c # Lit (z # l) # p) (w @ t)
         = (if w = [] then None else match_here (Lit (z # l) # p) t)"
proof -
  have "match_here (Plus c # Lit (z # l) # p) (w @ t)
        = (case first_fit (match_here (Lit (z # l) # p)) (w @ t)
                  (length (takeWhile (in_class c) (w @ t))) of
             None \<Rightarrow> None | Some (w, gs, r) \<Rightarrow> Some (gs, r))"
    by simp
  also have "\<dots> = (if w = [] then None else match_here (Lit (z # l) # p) t)"
    unfolding first_fit_Lit[of w "in_class c" t z l p, OF assms]
    by (cases "match_here (Lit (z # l) # p) t") auto
  finally show ?thesis .
qed

lemma match_Cap_Lit:
  assumes "\<forall>y\<in>set w. in_class c y" "t = [] \<or> \<not> in_class c (hd t)" "\<not> in_class c z"
  shows "match_here (Cap c # Lit (z # l) # p) (w @ t)
         = (if w = [] then None
            else map_option (\<lambda>(gs, r). (w # gs, r)) (match_here (Lit (z # l) # p) t))"
proof -
  have "match_here (Cap c # Lit (z # l) # p) (w @ t)
        = (case first_fit (match_here (Lit (z # l) # p)) (w @ t)
                  (length (takeWhile (in_class c) (w @ t))) of
             None \<Rightarrow> None | Some (w, gs, r) \<Rightarrow> Some (w # gs, r))"
    by simp
  also have "\<dots> = (if w = [] then None
            else map_option (\<lambda>(gs, r). (w # gs, r)) (match_here (Lit (z # l) # p) t))"
    unfolding first_fit_Lit[of w "in_class c" t z l p, OF assms]
    by (cases "match_here (Lit (z # l) # p) t") auto
  finally show ?thesis .
qed

lemma match_block_empty_body:
  assumes "\<forall>x\<in>set ws1. is_space x" "dq \<notin> set n" "\<forall>x\<in>set ws2. is_space x"
  shows "match_here (block_pat kw) (kw @ ws1 @ [dq] @ n @ [dq] @ ws2 @ ''{}'' @ rest) = None"
proof -
  let ?p7 = "[Cap (Not (CHR ''}'')), Lit ''}'']"
  let ?p6 = "Lit ''{'' # ?p7"
  let ?p5 = "Plus Space # ?p6"
  let ?p4 = "Lit [dq] # ?p5"
  let ?p3 = "Cap (Not dq) # ?p4"
  let ?p2 = "Lit [dq] # ?p3"
  let ?p1 = "Plus Space # ?p2"
  have m7: "match_here ?p7 (CHR ''}'' # rest) = None"
    using match_Cap_Lit[of "[]" "Not (CHR ''}'')" "CHR ''}'' # rest" "CHR ''}''" "[]" "[]"]
    by (simp del: match_here.simps)
  then have m6: "match_here ?p6 (CHR ''{'' # CHR ''}'' # rest) = None"
    by simp
  have "match_here ?p5 (ws2 @ CHR ''{'' # CHR ''}'' # rest)
        = (if ws2 = [] then None else match_here ?p6 (CHR ''{'' # CHR ''}'' # rest))"
    using assms(3) not_space_brace by (intro match_Plus_Lit) simp_all
  with m6 have m5: "match_here ?p5 (ws2 @ CHR ''{'' # CHR ''}'' # rest) = None"
    by (simp del: match_here.simps)
  then have m4: "match_here ?p4 (dq # ws2 @ CHR ''{'' # CHR ''}'' # rest) = None"
    by simp
  have "match_here ?p3 (n @ dq # ws2 @ CHR ''{'' # CHR ''}'' # rest)
        = (if n = [] then None else map_option (\<lambda>(gs, r). (n # gs, r))
             (match_here ?p4 (dq # ws2 @ CHR ''{'' # CHR ''}'' # rest)))"
    using assms(2) by (intro match_Cap_Lit) auto
  with m4 have m3: "match_here ?p3 (n @ dq # ws2 @ CHR ''{'' # CHR ''}'' # rest) = None"
    by (simp del: match_here.simps)
  then have m2: "match_here ?p2 (dq # n @ dq # ws2 @ CHR ''{'' # CHR ''}'' # rest) = None"
    by simp
  have "match_here ?p1 (ws1 @ dq # n @ dq # ws2 @ CHR ''{'' # CHR ''}'' # rest)
        = (if ws1 = [] then None
           else match_here ?p2 (dq # n @ dq # ws2 @ CHR ''{'' # CHR ''}'' # rest))"
    using assms(1) not_space_dq by (intro match_Plus_Lit) simp_all
  with m2 have m1: "match_here ?p1 (ws1 @ dq # n @ dq # ws2 @ CHR ''{'' # CHR ''}'' # rest) = None"
    by (simp del: match_here.simps)
  show ?thesis unfolding block_pat_def using m1 by simp
qed

subsection \<open>Nested braces\<close>

lemma block_pat_cases:
  "(kw = ''variable'' \<and> p = var_pat) \<or> (kw = ''output'' \<and> p = out_pat) \<Longrightarrow> p = block_pat kw"
  using var_pat_block out_pat_block by auto

text \<open>
  Claim C6.  The body of an extracted \<^verbatim>\<open>variable\<close> or \<^verbatim>\<open>output\<close> block never holds a closing
  brace, and in the source text it stands between the opening brace of the block and a
  closing brace that follows it at once.  So for a block that opens at the start of the
  text, the body is the text up to the first closing brace after the opening one,
  whatever follows: when the block holds a nested sub-block, the body ends at the brace
  that closes the sub-block, and the rest of the block is scanned as text after the match.
\<close>

theorem C6_first_closing_brace:
  assumes "(kw = ''variable'' \<and> p = var_pat) \<or> (kw = ''output'' \<and> p = out_pat)"
  shows "(\<forall>n b. (n, b) \<in> set (extract_blocks p s) \<longrightarrow>
            CHR ''}'' \<notin> set b
            \<and> (\<exists>pre ws1 ws2 post.
                  s = pre @ kw @ ws1 @ [dq] @ n @ [dq] @ ws2 @ ''{'' @ b @ ''}'' @ post))
       \<and> (ws1 \<noteq> [] \<and> (\<forall>x\<in>set ws1. is_space x) \<and> n \<noteq> [] \<and> dq \<notin> set n
          \<and> ws2 \<noteq> [] \<and> (\<forall>x\<in>set ws2. is_space x) \<and> b \<noteq> [] \<and> CHR ''}'' \<notin> set b \<longrightarrow>
            extract_blocks p (kw @ ws1 @ [dq] @ n @ [dq] @ ws2 @ ''{'' @ b @ ''}'' @ rest)
              = (n, b) # extract_blocks p rest)"
proof -
  have p: "p = block_pat kw" using assms by (rule block_pat_cases)
  have "CHR ''}'' \<notin> set b'
        \<and> (\<exists>pre ws1 ws2 post.
              s = pre @ kw @ ws1 @ [dq] @ n' @ [dq] @ ws2 @ ''{'' @ b' @ ''}'' @ post)"
    if "(n', b') \<in> set (extract_blocks p s)" for n' b'
    using extract_blocks_sound[of n' b' kw s] that unfolding p by blast
  moreover have "extract_blocks p (kw @ ws1 @ [dq] @ n @ [dq] @ ws2 @ ''{'' @ b @ ''}'' @ rest)
              = (n, b) # extract_blocks p rest"
    if "ws1 \<noteq> [] \<and> (\<forall>x\<in>set ws1. is_space x) \<and> n \<noteq> [] \<and> dq \<notin> set n
          \<and> ws2 \<noteq> [] \<and> (\<forall>x\<in>set ws2. is_space x) \<and> b \<noteq> [] \<and> CHR ''}'' \<notin> set b"
    using extract_blocks_head[of ws1 n ws2 b kw rest] that unfolding p by blast
  ultimately show ?thesis by blast
qed

text \<open>A variable with a \<^verbatim>\<open>validation\<close> sub-block: the body stops inside the sub-block.\<close>

theorem C6_first_closing_brace_witness:
  \<open>extract_blocks var_pat
      ''variable "x" {\<newline> validation {\<newline>  condition = true\<newline> }\<newline> default = 3\<newline>}\<newline>''
     = [(''x'', ''\<newline> validation {\<newline>  condition = true\<newline> '')]
   \<and> CHR ''}'' \<notin> set ''\<newline> validation {\<newline>  condition = true\<newline> ''\<close>
proof -
  let ?b = \<open>''\<newline> validation {\<newline>  condition = true\<newline> ''\<close>
  let ?rest = \<open>''\<newline> default = 3\<newline>}\<newline>''\<close>
  have r: "extract_blocks var_pat ?rest = []"
    by (simp add: extract_blocks_def var_pat_def)
  have h: "'' '' \<noteq> [] \<and> (\<forall>x\<in>set '' ''. is_space x) \<and> ''x'' \<noteq> [] \<and> dq \<notin> set ''x''
          \<and> '' '' \<noteq> [] \<and> (\<forall>x\<in>set '' ''. is_space x) \<and> ?b \<noteq> [] \<and> CHR ''}'' \<notin> set ?b"
    by (simp add: is_space_def dq_def)
  from C6_first_closing_brace[of "''variable''" var_pat "[]" "'' ''" "''x''" "'' ''" ?b ?rest] h r
  show ?thesis by (simp add: dq_def)
qed

subsection \<open>Empty bodies\<close>

text \<open>
  Claim C10.  A \<^verbatim>\<open>variable\<close> or \<^verbatim>\<open>output\<close> block with nothing between its braces is not
  extracted: every extracted body has at least one character, and where the text has such
  a block the pattern does not match, so the scan goes on behind its first character and
  the block gives no entry.
\<close>

theorem C10_empty_body:
  assumes "(kw = ''variable'' \<and> p = var_pat) \<or> (kw = ''output'' \<and> p = out_pat)"
  shows "(\<forall>n b. (n, b) \<in> set (extract_blocks p s) \<longrightarrow> b \<noteq> [])
       \<and> ((\<forall>x\<in>set ws1. is_space x) \<and> dq \<notin> set n \<and> (\<forall>x\<in>set ws2. is_space x) \<longrightarrow>
            match_here p (kw @ ws1 @ [dq] @ n @ [dq] @ ws2 @ ''{}'' @ rest) = None
            \<and> extract_blocks p (kw @ ws1 @ [dq] @ n @ [dq] @ ws2 @ ''{}'' @ rest)
                = extract_blocks p (tl (kw @ ws1 @ [dq] @ n @ [dq] @ ws2 @ ''{}'' @ rest)))"
proof -
  have p: "p = block_pat kw" using assms by (rule block_pat_cases)
  have ne: "kw \<noteq> []" using assms by auto
  have "b' \<noteq> []" if "(n', b') \<in> set (extract_blocks p s)" for n' b'
    using extract_blocks_sound[of n' b' kw s] that unfolding p by blast
  moreover have "match_here p (kw @ ws1 @ [dq] @ n @ [dq] @ ws2 @ ''{}'' @ rest) = None
            \<and> extract_blocks p (kw @ ws1 @ [dq] @ n @ [dq] @ ws2 @ ''{}'' @ rest)
                = extract_blocks p (tl (kw @ ws1 @ [dq] @ n @ [dq] @ ws2 @ ''{}'' @ rest))"
    if h: "(\<forall>x\<in>set ws1. is_space x) \<and> dq \<notin> set n \<and> (\<forall>x\<in>set ws2. is_space x)"
  proof -
    let ?s = "kw @ ws1 @ [dq] @ n @ [dq] @ ws2 @ ''{}'' @ rest"
    have m: "match_here p ?s = None"
      using match_block_empty_body[of ws1 n ws2 kw rest] h unfolding p by blast
    obtain c cs where cs: "?s = c # cs" using ne by (cases kw) auto
    have "findall p ?s = findall p (tl ?s)"
      using m unfolding cs by simp
    with m show ?thesis unfolding extract_blocks_def by simp
  qed
  ultimately show ?thesis by blast
qed

theorem C10_empty_body_witness:
  \<open>match_here var_pat ''variable "x" {}'' = None
   \<and> extract_blocks var_pat ''variable "x" {}'' = []
   \<and> extract_blocks var_pat ''variable "y" { }'' = [(''y'', '' '')]\<close>
proof -
  have t: \<open>extract_blocks var_pat (tl ''variable "x" {}'') = []\<close>
    by (simp add: extract_blocks_def var_pat_def)
  have y: \<open>extract_blocks var_pat ''variable "y" { }'' = [(''y'', '' '')]\<close>
    by (simp add: extract_blocks_def var_pat_def dq_def is_space_def)
  have h: "(\<forall>x\<in>set '' ''. is_space x) \<and> dq \<notin> set ''x'' \<and> (\<forall>x\<in>set '' ''. is_space x)"
    by (simp add: is_space_def dq_def)
  from C10_empty_body[of "''variable''" var_pat \<open>''variable "y" { }''\<close> "'' ''" "''x''" "'' ''" "[]"]
    h t y
  show ?thesis by (simp add: dq_def)
qed

subsection \<open>Searching\<close>











subsection \<open>The description\<close>







subsection \<open>The assignments read to the end of the line\<close>










subsection \<open>The attributes of a block\<close>








subsection \<open>The module directory\<close>

lemma lookup_append:
  "lookup_node t (p @ q) = (case lookup_node t p of None \<Rightarrow> None | Some n \<Rightarrow> lookup_node n q)"
  by (induction t p rule: lookup_node.induct) (auto split: option.splits)






text \<open>A directory under the name of a file exists and cannot be opened.\<close>

lemma read_optional_directory:
  "lookup_node t p = Some (Dir es) \<Longrightarrow> read_optional t p = Inl (IsADirectory p)"
  by (simp add: read_optional_def path_exists_def read_file_def)




text \<open>
  When the modules directory itself is missing, the scan of it raises and the analysis
  ends in the handler of exceptions.
\<close>

lemma analyze_without_modules_dir:
  assumes "subprocess_run w [''terraform'', ''init'', ''-get=true'']
             (main_tf ns name provider latest) = Inr result"
    and "returncode result = 0"
    and "lookup_node (tree result) modules_dir = None"
  shows "snd (fetch_module w ns name provider latest)
           = Inl (on_exception (os_error_text w (NoSuchFile modules_dir)))"
proof -
  have "\<not> path_exists (tree result) (modules_dir @ [''analyzed_module''])"
    using assms(3) by (simp add: path_exists_def lookup_append)
  then have "find_module_dir (tree result) = Inl (NoSuchFile modules_dir)"
    using assms(3) by (simp add: find_module_dir_def listdir_def Let_def)
  then show ?thesis
    unfolding fetch_module_def Let_def using assms(1,2) by simp
qed




subsection \<open>The layout of the report\<close>

lemma join_nl_Cons: "ls \<noteq> [] \<Longrightarrow> join_nl (a # ls) = a @ nl # join_nl ls"
  by (cases ls) auto

lemma join_nl_lines: "join_nl (ls @ [l]) = concat (map (\<lambda>x. x @ [nl]) ls) @ l"
  by (induction ls) (simp_all add: join_nl_Cons)

lemma concat_map_concat:
  "concat (map f (concat (map g xs))) = concat (map (\<lambda>x. concat (map f (g x))) xs)"
  by (induction xs) simp_all

lemma report_head_eq:
  "report_head mid v md =
     [''# Module Analysis: '' @ mid @ [nl],
      ''**Version:** '' @ v,
      ''**Registry Link:** https://registry.terraform.io/modules/'' @ mid @ [nl],
      ''## Inputs ('' @ show_nat (length (inputs md)) @ '')'' @ [nl]]
     @ concat (map input_lines (inputs md))
     @ [''## Outputs ('' @ show_nat (length (outputs md)) @ '')'' @ [nl]]
     @ concat (map output_lines (outputs md))"
  unfolding report_head_def formatted_output_def
  by (simp only: butlast_snoc flip: append_assoc)

lemma input_section:
  "concat (map (\<lambda>l. l @ [nl]) (input_lines x)) =
     ''### '' @ var_name x @ [nl]
     @ ''- **Description:** ''
       @ (case var_description x of None \<Rightarrow> ''No description provided'' | Some t \<Rightarrow> t) @ [nl]
     @ ''- **Type:** '' @ (case var_type x of None \<Rightarrow> ''any'' | Some t \<Rightarrow> t) @ [nl]
     @ ''- **Default:** '' @ (case var_default x of None \<Rightarrow> ''no default'' | Some t \<Rightarrow> t)
       @ [nl, nl]"
  by (simp add: input_lines_def Let_def)

lemma output_section:
  "concat (map (\<lambda>l. l @ [nl]) (output_lines x)) =
     ''### '' @ out_name x @ [nl]
     @ ''- **Description:** ''
       @ (case out_description x of None \<Rightarrow> ''No description provided'' | Some t \<Rightarrow> t)
       @ [nl, nl]"
  by (simp add: output_lines_def Let_def)

lemma render_layout:
  "render mid v d =
     ''# Module Analysis: '' @ mid @ [nl, nl]
     @ ''**Version:** '' @ v @ [nl]
     @ ''**Registry Link:** https://registry.terraform.io/modules/'' @ mid @ [nl, nl]
     @ ''## Inputs ('' @ show_nat (length (inputs d)) @ '')'' @ [nl, nl]
     @ concat (map (\<lambda>x.
         ''### '' @ var_name x @ [nl]
         @ ''- **Description:** ''
           @ (case var_description x of None \<Rightarrow> ''No description provided'' | Some t \<Rightarrow> t)
           @ [nl]
         @ ''- **Type:** '' @ (case var_type x of None \<Rightarrow> ''any'' | Some t \<Rightarrow> t) @ [nl]
         @ ''- **Default:** ''
           @ (case var_default x of None \<Rightarrow> ''no default'' | Some t \<Rightarrow> t) @ [nl, nl])
         (inputs d))
     @ ''## Outputs ('' @ show_nat (length (outputs d)) @ '')'' @ [nl, nl]
     @ concat (map (\<lambda>x.
         ''### '' @ out_name x @ [nl]
         @ ''- **Description:** ''
           @ (case out_description x of None \<Rightarrow> ''No description provided'' | Some t \<Rightarrow> t)
           @ [nl, nl])
         (outputs d))
     @ ''## README'' @ [nl, nl] @ shown_readme (readme d)"
  unfolding render_def formatted_output_head join_nl_lines report_head_eq
  by (simp add: concat_map_concat input_section output_section del: append_assoc)


lemma list3: "length xs = 3 \<Longrightarrow> xs = [xs ! 0, xs ! 1, xs ! 2]"
  by (cases xs; cases "tl xs"; cases "tl (tl xs)") auto

lemma fetch_success:
  assumes "fetch_module w ns name provider latest = (evs, Inr d)"
  shows "\<exists>result dir.
           subprocess_run w [''terraform'', ''init'', ''-get=true'']
             (main_tf ns name provider latest) = Inr result
           \<and> returncode result = 0
           \<and> find_module_dir (tree result) = Inr dir
           \<and> extract_module (tree result) dir = Inr d"
  using assms unfolding fetch_module_def Let_def
  by (auto split: sum.splits if_splits)

lemma fetch_failure:
  assumes "fetch_module w ns name provider latest = (evs, Inl r)"
  shows "\<exists>e. metadata r = Failed e"
  using assms unfolding fetch_module_def Let_def
  by (auto simp: on_exception_def split: sum.splits if_splits)

lemma analyze_success:
  assumes "analyze_module w mid = (evs, r)" and "metadata r = Analyzed i v d"
  shows "\<exists>ns name provider evs'.
           split_on (CHR ''/'') mid = [ns, name, provider]
           \<and> i = mid \<and> content r = render mid v d
           \<and> fetch_module w ns name provider v = (evs', Inr d)"
proof -
  let ?parts = "split_on (CHR ''/'') mid"
  have len: "length ?parts = 3"
    using assms unfolding analyze_module_def Let_def by (auto split: if_splits)
  then have parts: "?parts = [?parts ! 0, ?parts ! 1, ?parts ! 2]" by (rule list3)
  from assms len have "i = mid \<and> content r = render mid v d
      \<and> (\<exists>evs'. fetch_module w (?parts ! 0) (?parts ! 1) (?parts ! 2) v = (evs', Inr d))"
    unfolding analyze_module_def Let_def
    by (auto simp: on_exception_def dest: fetch_failure split: if_splits sum.splits prod.splits)
  with parts show ?thesis by blast
qed

lemma extract_module_fields:
  assumes "extract_module t dir = Inr d"
  shows "inputs d = (case read_optional t (dir @ [''variables.tf'']) of
                       Inr (Some c) \<Rightarrow> map variable_of (extract_blocks var_pat c) | _ \<Rightarrow> [])
       \<and> outputs d = (case read_optional t (dir @ [''outputs.tf'']) of
                       Inr (Some c) \<Rightarrow> map output_of (extract_blocks out_pat c) | _ \<Rightarrow> [])"
  using assms unfolding extract_module_def extract_variables_def extract_outputs_def
  by (auto split: sum.splits option.splits)

text \<open>
  Claim C8.  The report of a successful analysis is laid out in this order: the title
  with the identifier, the version and the link to the registry, the heading
  \<^verbatim>\<open>## Inputs (n)\<close> with the number of inputs, one subsection for each input in the order
  of extraction, the heading \<^verbatim>\<open>## Outputs (m)\<close> with the number of outputs, one subsection
  for each output, and the README section.  A subsection shows the name, then the
  description or \<^verbatim>\<open>No description provided\<close>, and for an input the type or \<^verbatim>\<open>any\<close> and the
  default or \<^verbatim>\<open>no default\<close>.  The inputs are the \<^verbatim>\<open>variable\<close> blocks extracted from
  \<^verbatim>\<open>variables.tf\<close> and the outputs the \<^verbatim>\<open>output\<close> blocks extracted from \<^verbatim>\<open>outputs.tf\<close>, one
  each and in that order, so the two numbers are the numbers of extracted blocks.
\<close>

theorem C8_report_layout:
  assumes "analyze_module w mid = (evs, r)" and "metadata r = Analyzed i v d"
  shows "content r =
     ''# Module Analysis: '' @ mid @ [nl, nl]
     @ ''**Version:** '' @ v @ [nl]
     @ ''**Registry Link:** https://registry.terraform.io/modules/'' @ mid @ [nl, nl]
     @ ''## Inputs ('' @ show_nat (length (inputs d)) @ '')'' @ [nl, nl]
     @ concat (map (\<lambda>x.
         ''### '' @ var_name x @ [nl]
         @ ''- **Description:** ''
           @ (case var_description x of None \<Rightarrow> ''No description provided'' | Some t \<Rightarrow> t)
           @ [nl]
         @ ''- **Type:** '' @ (case var_type x of None \<Rightarrow> ''any'' | Some t \<Rightarrow> t) @ [nl]
         @ ''- **Default:** ''
           @ (case var_default x of None \<Rightarrow> ''no default'' | Some t \<Rightarrow> t) @ [nl, nl])
         (inputs d))
     @ ''## Outputs ('' @ show_nat (length (outputs d)) @ '')'' @ [nl, nl]
     @ concat (map (\<lambda>x.
         ''### '' @ out_name x @ [nl]
         @ ''- **Description:** ''
           @ (case out_description x of None \<Rightarrow> ''No description provided'' | Some t \<Rightarrow> t)
           @ [nl, nl])
         (outputs d))
     @ ''## README'' @ [nl, nl] @ shown_readme (readme d)
   \<and> sublist (''## Inputs ('' @ show_nat (length (inputs d)) @ '')'') (content r)
   \<and> sublist (''## Outputs ('' @ show_nat (length (outputs d)) @ '')'') (content r)
   \<and> (\<exists>ns name provider result dir.
         split_on (CHR ''/'') mid = [ns, name, provider]
         \<and> subprocess_run w [''terraform'', ''init'', ''-get=true'']
              (main_tf ns name provider v) = Inr result
         \<and> find_module_dir (tree result) = Inr dir
         \<and> inputs d = (case read_optional (tree result) (dir @ [''variables.tf'']) of
                         Inr (Some c) \<Rightarrow> map variable_of (extract_blocks var_pat c)
                       | _ \<Rightarrow> [])
         \<and> outputs d = (case read_optional (tree result) (dir @ [''outputs.tf'']) of
                         Inr (Some c) \<Rightarrow> map output_of (extract_blocks out_pat c)
                       | _ \<Rightarrow> []))"
proof -
  from analyze_success[OF assms] obtain ns name provider evs' where
    a: "split_on (CHR ''/'') mid = [ns, name, provider]" "content r = render mid v d"
       "fetch_module w ns name provider v = (evs', Inr d)" by blast
  from fetch_success[OF a(3)] obtain result dir where
    f: "subprocess_run w [''terraform'', ''init'', ''-get=true'']
             (main_tf ns name provider v) = Inr result"
       "find_module_dir (tree result) = Inr dir"
       "extract_module (tree result) dir = Inr d" by blast
  note c = a(2)[unfolded render_layout]
  let ?hi = "''## Inputs ('' @ show_nat (length (inputs d)) @ '')''"
  let ?ho = "''## Outputs ('' @ show_nat (length (outputs d)) @ '')''"
  have "\<exists>ps ss. content r = ps @ ?hi @ ss"
    unfolding c
    by (rule exI[of _ "''# Module Analysis: '' @ mid @ [nl, nl] @ ''**Version:** '' @ v @ [nl]
           @ ''**Registry Link:** https://registry.terraform.io/modules/'' @ mid @ [nl, nl]"],
        rule exI) (simp only: append_assoc)
  then have si: "sublist ?hi (content r)" unfolding sublist_def .
  have "\<exists>ps ss. content r = ps @ ?ho @ ss"
    unfolding c
    by (rule exI[of _ "''# Module Analysis: '' @ mid @ [nl, nl] @ ''**Version:** '' @ v @ [nl]
           @ ''**Registry Link:** https://registry.terraform.io/modules/'' @ mid @ [nl, nl]
           @ ''## Inputs ('' @ show_nat (length (inputs d)) @ '')'' @ [nl, nl]
           @ concat (map (\<lambda>x.
         ''### '' @ var_name x @ [nl]
         @ ''- **Description:** ''
           @ (case var_description x of None \<Rightarrow> ''No description provided'' | Some t \<Rightarrow> t)
           @ [nl]
         @ ''- **Type:** '' @ (case var_type x of None \<Rightarrow> ''any'' | Some t \<Rightarrow> t) @ [nl]
         @ ''- **Default:** ''
           @ (case var_default x of None \<Rightarrow> ''no default'' | Some t \<Rightarrow> t) @ [nl, nl])
         (inputs d))"],
        rule exI) (simp only: append_assoc)
  then have so: "sublist ?ho (content r)" unfolding sublist_def .
  from extract_module_fields[OF f(3)] a(1) f(1,2)
  have e: "\<exists>ns name provider result dir.
         split_on (CHR ''/'') mid = [ns, name, provider]
         \<and> subprocess_run w [''terraform'', ''init'', ''-get=true'']
              (main_tf ns name provider v) = Inr result
         \<and> find_module_dir (tree result) = Inr dir
         \<and> inputs d = (case read_optional (tree result) (dir @ [''variables.tf'']) of
                         Inr (Some c) \<Rightarrow> map variable_of (extract_blocks var_pat c)
                       | _ \<Rightarrow> [])
         \<and> outputs d = (case read_optional (tree result) (dir @ [''outputs.tf'']) of
                         Inr (Some c) \<Rightarrow> map output_of (extract_blocks out_pat c)
                       | _ \<Rightarrow> [])"
    by blast
  show ?thesis by (intro conjI) (rule c si so e)+
qed


theorem C8_report_layout_witness:
  \<open>content (snd (analyze_module (example_world example_tree) ''acme/bucket/google''))
     = ''# Module Analysis: acme/bucket/google\<newline>\<newline>**Version:** 1.2.0\<newline>**Registry Link:** https://registry.terraform.io/modules/acme/bucket/google\<newline>\<newline>## Inputs (1)\<newline>\<newline>### region\<newline>- **Description:** The region\<newline>- **Type:** string\<newline>- **Default:** "us-central1"\<newline>\<newline>## Outputs (1)\<newline>\<newline>### bucket_name\<newline>- **Description:** The bucket\<newline>\<newline>## README\<newline>\<newline># Example module for storing objects in a bucket.''\<close>
proof -
  let ?d = "\<lparr>inputs = extract_variables example_variables_tf,
              outputs = extract_outputs example_outputs_tf,
              resources = [], readme = example_readme\<rparr>"
  obtain evs r where
    a: "analyze_module (example_world example_tree) ''acme/bucket/google'' = (evs, r)"
    by (cases "analyze_module (example_world example_tree) ''acme/bucket/google''")
  with example_run have m: "metadata r = Analyzed ''acme/bucket/google'' ''1.2.0'' ?d"
    by auto
  from C8_report_layout[OF a m] a show ?thesis
    by (simp add: example_variables example_outputs show_nat.simps digit_char_def
          shown_readme_def example_readme_def nl_def)
qed

end
